theory Spec2Isabelle
  imports Complex_Main
begin

section \<open>Session state (core/session.py)\<close>

text \<open>
  \<^verbatim>\<open>SessionManager\<close> keeps everything in the framework's key-value store
  \<^verbatim>\<open>st.session_state\<close>. The store is a dictionary from string keys to Python values;
  of the values, the claims need \<^verbatim>\<open>None\<close>, a recording object and a boolean.
  The recording type is a parameter: the session never looks inside it.
\<close>

datatype 'r pyval = PNone | PRaw 'r | PBool bool

type_synonym 'r session_state = "string \<rightharpoonup> 'r pyval"

text \<open>\<^verbatim>\<open>st.session_state.get(key, default)\<close>.\<close>

definition ss_get :: "'r session_state \<Rightarrow> string \<Rightarrow> 'r pyval \<Rightarrow> 'r pyval" where
  "ss_get st k d = (case st k of None \<Rightarrow> d | Some v \<Rightarrow> v)"

text \<open>
  \<^verbatim>\<open>_initialize_session_state\<close>: each key is set only when absent (the temporary
  directory and the preferences hold no recording and are left out).
\<close>

definition initialize_session_state :: "'r session_state \<Rightarrow> 'r session_state" where
  "initialize_session_state st =
     (let st1 = (if ''eegviz_raw_data'' \<notin> dom st then st(''eegviz_raw_data'' \<mapsto> PNone) else st);
          st2 = (if ''eegviz_processed_data'' \<notin> dom st1
                 then st1(''eegviz_processed_data'' \<mapsto> PNone) else st1);
          st3 = (if ''eegviz_filter_applied'' \<notin> dom st2
                 then st2(''eegviz_filter_applied'' \<mapsto> PBool False) else st2)
      in st3)"

definition raw_data :: "'r session_state \<Rightarrow> 'r pyval" where
  "raw_data st = ss_get st ''eegviz_raw_data'' PNone"

definition processed_data :: "'r session_state \<Rightarrow> 'r pyval" where
  "processed_data st = ss_get st ''eegviz_processed_data'' PNone"

definition set_processed_data :: "'r pyval \<Rightarrow> 'r session_state \<Rightarrow> 'r session_state" where
  "set_processed_data v st = st(''eegviz_processed_data'' \<mapsto> v)"

definition filter_applied :: "'r session_state \<Rightarrow> 'r pyval" where
  "filter_applied st = ss_get st ''eegviz_filter_applied'' (PBool False)"

definition set_filter_applied :: "bool \<Rightarrow> 'r session_state \<Rightarrow> 'r session_state" where
  "set_filter_applied v st = st(''eegviz_filter_applied'' \<mapsto> PBool v)"

text \<open>
  The \<^verbatim>\<open>raw_data\<close> setter: the value is stored, and processed data and flag are
  cleared only under the guard \<^verbatim>\<open>if value is not None\<close>.
\<close>

definition set_raw_data :: "'r pyval \<Rightarrow> 'r session_state \<Rightarrow> 'r session_state" where
  "set_raw_data v st =
     (let st1 = st(''eegviz_raw_data'' \<mapsto> v)
      in if v \<noteq> PNone then set_filter_applied False (set_processed_data PNone st1) else st1)"

definition get_current_data :: "'r session_state \<Rightarrow> 'r pyval" where
  "get_current_data st =
     (if processed_data st \<noteq> PNone then processed_data st else raw_data st)"

text \<open>\<^verbatim>\<open>clear_session\<close>: the three data keys are deleted when present.\<close>

definition clear_session :: "'r session_state \<Rightarrow> 'r session_state" where
  "clear_session st =
     fold (\<lambda>key s. if key \<in> dom s then s(key := None) else s)
       [''eegviz_raw_data'', ''eegviz_processed_data'', ''eegviz_filter_applied''] st"


section \<open>Windowing (preprocess/windows.py)\<close>

text \<open>
  Python floats are modelled as real numbers: the functions below only compare, take
  \<^verbatim>\<open>min\<close>/\<^verbatim>\<open>max\<close> and add, and the theorems are about the exact arithmetic, not
  about rounding.
\<close>

definition restrict_interval :: "real \<Rightarrow> real \<Rightarrow> real \<Rightarrow> real \<times> real" where
  "restrict_interval total' start end' =
     (let start1 = max 0 (min start total');
          end1 = max 0 (min end' total');
          end2 = (if end1 \<le> start1 then min total' (start1 + 0.25) else end1)
      in (start1, end2))"





section \<open>Band power (analysis/psd.py, analysis/bands.py)\<close>

text \<open>
  A numpy float is either a finite number or one of \<^verbatim>\<open>nan\<close>, \<^verbatim>\<open>inf\<close>, \<^verbatim>\<open>-inf\<close>;
  the code only asks \<^verbatim>\<open>np.isfinite\<close>, so the three are one value.
\<close>

datatype npfloat = Finite real | NonFinite

fun isfinite :: "npfloat \<Rightarrow> bool" where
  "isfinite (Finite x) = True"
| "isfinite NonFinite = False"

fun the_finite :: "npfloat \<Rightarrow> real" where
  "the_finite (Finite x) = x"
| "the_finite NonFinite = 0"

text \<open>
  \<^verbatim>\<open>.mean(axis=1)\<close> of one row: the mean of no value is \<^verbatim>\<open>nan\<close>, and a row with a
  non-finite entry has a non-finite mean.
\<close>

definition row_mean :: "npfloat list \<Rightarrow> npfloat" where
  "row_mean row =
     (if row = [] \<or> \<not> list_all isfinite row then NonFinite
      else Finite (sum_list (map the_finite row) / real (length row)))"

text \<open>
  The recording library (MNE) is not part of the repository. A segment is a value of a
  type parameter, and the two things the code asks of it are parameters as well:
  its sample count \<^verbatim>\<open>n_times\<close> and \<^verbatim>\<open>compute_psd\<close>, called with the band, the FFT
  length and the overlap, which returns the channels-by-frequencies matrix or raises
  (\<open>None\<close>). The channel selection \<^verbatim>\<open>picks\<close> is passed through unchanged and is
  part of \<^verbatim>\<open>compute_psd\<close> here.
\<close>

record 'seg psd_lib =
  n_times :: "'seg \<Rightarrow> int"
  compute_psd :: "'seg \<Rightarrow> real \<Rightarrow> real \<Rightarrow> int \<Rightarrow> int \<Rightarrow> npfloat list list option"

definition bandpower_segment ::
  "'seg psd_lib \<Rightarrow> 'seg \<Rightarrow> real \<Rightarrow> real \<Rightarrow> npfloat list option" where
  "bandpower_segment L raw_seg fmin fmax =
     (let nfft = min 512 (n_times L raw_seg);
          nfft = max nfft 64;
          nover = max 0 (nfft div 2)
      in case compute_psd L raw_seg fmin fmax nfft nover of
           None \<Rightarrow> None
         | Some psd \<Rightarrow> Some (map row_mean psd))"

definition bandpower_mean ::
  "'seg psd_lib \<Rightarrow> 'seg \<Rightarrow> real \<Rightarrow> real \<Rightarrow> npfloat list option" where
  "bandpower_mean L raw fmin fmax =
     (let nfft = min 512 (n_times L raw);
          nfft = max nfft 64;
          nover = max 0 (nfft div 2)
      in case compute_psd L raw fmin fmax nfft nover of
           None \<Rightarrow> None
         | Some psd \<Rightarrow> Some (map row_mean psd))"

text \<open>
  What the claim's words say: the window is \<open>min(512, n)\<close> floored at 64, the overlap
  half of it.
\<close>

definition spec_fft_window :: "int \<Rightarrow> int" where
  "spec_fft_window n = max 64 (min 512 n)"

definition spec_overlap :: "int \<Rightarrow> int" where
  "spec_overlap n = spec_fft_window n div 2"

text \<open>
  The library's Welch estimator, called as here without a separate segment length,
  refuses an FFT length above the number of samples and an overlap that is not below the
  FFT length. This is the contract of the external estimator, not code of the
  repository; it says when a window is valid for a segment of \<open>n\<close> samples.
\<close>

definition welch_accepts :: "int \<Rightarrow> int \<Rightarrow> int \<Rightarrow> bool" where
  "welch_accepts n n_fft n_overlap \<longleftrightarrow> n_fft \<le> n \<and> n_overlap < n_fft"


section \<open>Frame sequences (viz/temporal_gif.py)\<close>







text \<open>
  A library instance that follows the estimator's contract: a segment is its sample
  count, and \<^verbatim>\<open>compute_psd\<close> raises exactly when the window is not accepted.
\<close>

definition welch_lib :: "int psd_lib" where
  "welch_lib = \<lparr>n_times = (\<lambda>seg. seg),
                compute_psd = (\<lambda>seg fmin fmax nfft nover.
                   if welch_accepts seg nfft nover then Some [[Finite 1]] else None)\<rparr>"


section \<open>Marker import (io/markers_csv.py)\<close>

text \<open>
  The parsed CSV file: its column names and, row by row, the values of the columns
  \<^verbatim>\<open>latency\<close>, \<^verbatim>\<open>duration\<close> and \<^verbatim>\<open>type\<close> that the loop zips. Of the recording the
  function reads the time of the last sample, \<^verbatim>\<open>raw.times[-1]\<close>, and the annotations, a
  list of (onset, duration, description).
\<close>

type_synonym annotation = "real \<times> real \<times> string"

record data_frame =
  columns :: "string list"
  rows :: "(real \<times> real \<times> string) list"

record marked_recording =
  last_time :: real
  annotations :: "annotation list"

text \<open>
  The loop over the rows. The three lists \<^verbatim>\<open>on\<close>, \<^verbatim>\<open>du\<close>, \<^verbatim>\<open>de\<close> grow together and
  are one list of triples here.
\<close>

fun csv_loop :: "real \<Rightarrow> (real \<times> real \<times> string) list \<Rightarrow> annotation list" where
  "csv_loop T [] = []"
| "csv_loop T ((o', d, lab) # rest) =
     (if d \<le> 0 \<or> o' \<ge> T then csv_loop T rest
      else (let end' = min T (o' + d); o2 = max 0 o'
            in if end' - o2 \<le> 0 then csv_loop T rest
               else (o2, end' - o2, lab) # csv_loop T rest))"

text \<open>
  \<^verbatim>\<open>add_csv_markers\<close> returns the number of markers added; the recording is changed in
  place, so the model returns it as well. \<open>ann_add\<close> is the library's
  \<^verbatim>\<open>raw.annotations + ann\<close>.
\<close>

definition add_csv_markers ::
  "(annotation list \<Rightarrow> annotation list \<Rightarrow> annotation list) \<Rightarrow>
   marked_recording \<Rightarrow> data_frame \<Rightarrow> marked_recording \<times> int" where
  "add_csv_markers ann_add raw df =
     (if \<not> set [''latency'', ''duration'', ''type''] \<subseteq> set (columns df) then (raw, 0)
      else (let kept = csv_loop (last_time raw) (rows df)
            in if kept = [] then (raw, 0)
               else (raw\<lparr>annotations := ann_add (annotations raw) kept\<rparr>,
                     int (length kept))))"


section \<open>Contrast (analysis/contrast.py)\<close>





section \<open>Epochs (core/epochs.py)\<close>

text \<open>
  Of the library the function calls \<^verbatim>\<open>len(raw.annotations)\<close>,
  \<^verbatim>\<open>events_from_annotations\<close>, the constructor \<^verbatim>\<open>mne.Epochs\<close> and \<^verbatim>\<open>len(epochs)\<close>.
  They are parameters; a call that raises returns \<open>Inl\<close> of the exception's text, which
  the \<^verbatim>\<open>except\<close> clause turns into a message. The label-to-code dictionary is an
  association list, in the dictionary's order.
\<close>

type_synonym event = "int \<times> int \<times> int"
type_synonym event_id = "(string \<times> int) list"

record epoch_args =
  tmin :: real
  tmax :: real
  picks :: "string list"
  baseline :: "(real \<times> real) option"
  decim :: int
  reject_by_annotation :: bool
  detrend :: "int option"

record ('r, 'e) epochs_lib =
  n_annotations :: "'r \<Rightarrow> nat"
  events_from_annotations :: "'r \<Rightarrow> string + (event list \<times> event_id)"
  Epochs :: "'r \<Rightarrow> event list \<Rightarrow> event_id \<Rightarrow> epoch_args \<Rightarrow> string + 'e"
  len_epochs :: "'e \<Rightarrow> nat"

record 'e epoch_manager =
  last_epochs :: "'e option"
  last_event_id :: "event_id option"

text \<open>
  \<open>repr\<close> is Python's formatting of a list of strings inside an f-string. The result
  is the manager after the call, and the returned triple (epochs, event_id, message).
\<close>

definition create_epochs_from_labels ::
  "('r, 'e) epochs_lib \<Rightarrow> (string list \<Rightarrow> string) \<Rightarrow> 'e epoch_manager \<Rightarrow> 'r \<Rightarrow>
   string list \<Rightarrow> epoch_args \<Rightarrow>
   'e epoch_manager \<times> ('e option \<times> event_id option \<times> string option)" where
  "create_epochs_from_labels L repr self raw labels_to_use args =
     (if n_annotations L raw = 0
      then (self, (None, None, Some ''No annotations present in the data''))
      else (case events_from_annotations L raw of
              Inl e \<Rightarrow> (self, (None, None, Some (''Failed to create epochs: '' @ e)))
            | Inr (events, mapping) \<Rightarrow>
                if length events = 0
                then (self, (None, None, Some ''No events found in annotations''))
                else (let event_id = filter (\<lambda>(label, code). label \<in> set labels_to_use) mapping
                      in if event_id = []
                         then (self, (None, None,
                                 Some (''No matching labels found. Available: ''
                                         @ repr (map fst mapping))))
                         else (case Epochs L raw events event_id args of
                                 Inl e \<Rightarrow>
                                   (self, (None, None, Some (''Failed to create epochs: '' @ e)))
                               | Inr epochs \<Rightarrow>
                                   if len_epochs L epochs = 0
                                   then (self, (None, None,
                                           Some (''No valid epochs found for labels: ''
                                                   @ repr labels_to_use)))
                                   else (self\<lparr>last_epochs := Some epochs,
                                              last_event_id := Some event_id\<rparr>,
                                         (Some epochs, Some event_id, None))))))"


section \<open>Filter pipeline (preprocess/filtering.py)\<close>

text \<open>
  \<^verbatim>\<open>apply_pipeline\<close> copies the recording and then changes the copy in place, so the
  recordings live in a store: an address is an index into the list of objects, and
  \<^verbatim>\<open>raw.copy()\<close> puts a copy of the object at a fresh address, the end of the list.

  A recording is its sampling rate \<^verbatim>\<open>info["sfreq"]\<close>, its list of bad channels
  \<^verbatim>\<open>info["bads"]\<close> and its samples, of a type parameter. The library's methods are
  modelled by what they do to these fields: \<^verbatim>\<open>resample\<close> sets the rate to the
  requested one, the others keep rate and bad channels (\<^verbatim>\<open>interpolate_bads\<close> is
  called with \<^verbatim>\<open>reset_bads=False\<close>); what they compute on the samples is the
  parameter \<open>M\<close>, which returns \<open>None\<close> when the method raises. Every method call
  is also written to a log, with the address it is called on, so that theorems can
  speak about the arguments of the calls.
\<close>

type_synonym addr = nat

record 'd recording =
  sfreq :: real
  bads :: "string list"
  samples :: 'd

datatype mne_call =
    Resample real
  | NotchFilter real
  | BandFilter "real option" real
  | InterpolateBads
  | SetEegReference

record 'd world =
  heap :: "'d recording list"
  calls :: "(addr \<times> mne_call) list"

type_synonym 'd mne = "mne_call \<Rightarrow> 'd recording \<Rightarrow> 'd option"

definition copy :: "addr \<Rightarrow> 'd world \<Rightarrow> 'd world \<times> addr" where
  "copy a w = (w\<lparr>heap := heap w @ [heap w ! a]\<rparr>, length (heap w))"

fun effect :: "mne_call \<Rightarrow> 'd \<Rightarrow> 'd recording \<Rightarrow> 'd recording" where
  "effect (Resample r) d rec = rec\<lparr>sfreq := r, samples := d\<rparr>"
| "effect c d rec = rec\<lparr>samples := d\<rparr>"

text \<open>
  A method call on the object at \<open>p\<close>: \<open>Inr\<close> is the store after the call, \<open>Inl\<close>
  the store at the moment the method raises.
\<close>

definition call_method :: "'d mne \<Rightarrow> addr \<Rightarrow> mne_call \<Rightarrow> 'd world \<Rightarrow> 'd world + 'd world" where
  "call_method M p c w =
     (let w1 = w\<lparr>calls := calls w @ [(p, c)]\<rparr>
      in case M c (heap w ! p) of
           None \<Rightarrow> Inl w1
         | Some d \<Rightarrow> Inr (w1\<lparr>heap := (heap w)[p := effect c d (heap w ! p)]\<rparr>))"

text \<open>Sequencing: an exception ends the function.\<close>

definition and_then ::
  "'d world + 'd world \<Rightarrow> ('d world \<Rightarrow> 'd world + 'a) \<Rightarrow> 'd world + 'a" where
  "and_then r f = (case r of Inl w \<Rightarrow> Inl w | Inr w \<Rightarrow> f w)"

text \<open>
  \<^verbatim>\<open>h_freq or x\<close>: Python takes \<^verbatim>\<open>x\<close> when \<^verbatim>\<open>h_freq\<close> is \<^verbatim>\<open>None\<close> or zero.
\<close>

definition py_or :: "real option \<Rightarrow> real \<Rightarrow> real" where
  "py_or v x = (case v of None \<Rightarrow> x | Some y \<Rightarrow> if y = 0 then x else y)"

definition apply_pipeline ::
  "'d mne \<Rightarrow> 'd world \<Rightarrow> addr \<Rightarrow> real option \<Rightarrow> real option \<Rightarrow> real option \<Rightarrow> real option \<Rightarrow>
   bool \<Rightarrow> bool \<Rightarrow> 'd world + ('d world \<times> addr)" where
  "apply_pipeline M w raw notch l_freq h_freq resample ref_avg interpolate =
     (case copy raw w of (w0, proc) \<Rightarrow>
      and_then
        (case resample of
           None \<Rightarrow> Inr w0
         | Some r \<Rightarrow>
             if r \<noteq> 0 \<and> \<bar>sfreq (heap w0 ! proc) - r\<bar> > 1 / 10 ^ 6
             then call_method M proc (Resample r) w0 else Inr w0)
        (\<lambda>w1. and_then
          (case notch of
             None \<Rightarrow> Inr w1
           | Some f \<Rightarrow> call_method M proc (NotchFilter f) w1)
        (\<lambda>w2. and_then
          (if l_freq \<noteq> None \<or> h_freq \<noteq> None
           then (let hf = min (py_or h_freq (sfreq (heap w2 ! proc) / 2 - 1.0))
                              (sfreq (heap w2 ! proc) / 2 - 1.0)
                 in call_method M proc (BandFilter l_freq hf) w2)
           else Inr w2)
        (\<lambda>w3. and_then
          (if interpolate \<and> bads (heap w3 ! proc) \<noteq> []
           then call_method M proc InterpolateBads w3 else Inr w3)
        (\<lambda>w4. and_then
          (if ref_avg then call_method M proc SetEegReference w4 else Inr w4)
        (\<lambda>w5. Inr (w5, proc)))))))"

text \<open>What a run leaves behind, whether it returned or raised.\<close>

definition final_world :: "'d world + ('d world \<times> addr) \<Rightarrow> 'd world" where
  "final_world res = (case res of Inl w \<Rightarrow> w | Inr (w, p) \<Rightarrow> w)"

text \<open>The high cutoffs of the band-filter calls in a log.\<close>

fun band_cutoffs :: "(addr \<times> mne_call) list \<Rightarrow> real list" where
  "band_cutoffs [] = []"
| "band_cutoffs ((p, BandFilter l hf) # cs) = hf # band_cutoffs cs"
| "band_cutoffs (c # cs) = band_cutoffs cs"

text \<open>
  The sampling rate of the copy when the band filter is reached: the requested rate if
  the resampling step ran, the recording's own rate otherwise.
\<close>

definition rate_after_resampling :: "real \<Rightarrow> real option \<Rightarrow> real" where
  "rate_after_resampling sf resample =
     (case resample of
        None \<Rightarrow> sf
      | Some r \<Rightarrow> if r \<noteq> 0 \<and> \<bar>sf - r\<bar> > 1 / 10 ^ 6 then r else sf)"

text \<open>A library instance for concrete runs: no samples, and no method ever raises.\<close>

definition unit_mne :: "unit mne" where
  "unit_mne c rec = Some ()"

definition raw256 :: "unit world" where
  "raw256 = \<lparr>heap = [\<lparr>sfreq = 256, bads = [], samples = ()\<rparr>], calls = []\<rparr>"

text \<open>
  A library instance for concrete runs: a recording is the list of its annotation
  labels, every annotation is one event, the codes follow the first occurrences of the
  labels, and an epoch set is the number of its events.
\<close>

definition demo_epochs_lib :: "(string list, nat) epochs_lib" where
  "demo_epochs_lib =
     \<lparr>n_annotations = length,
      events_from_annotations =
        (\<lambda>raw. Inr (map (\<lambda>l. (0, 0, 1)) raw, zip (remdups raw) (map int [1..<Suc (length raw)]))),
      Epochs = (\<lambda>raw events event_id args. Inr (length events)),
      len_epochs = (\<lambda>e. e)\<rparr>"


section \<open>Session: replacing the raw recording\<close>

text \<open>
  C1. Assigning a recording \<open>r\<close> to \<^verbatim>\<open>raw_data\<close> of any session clears the processed
  data and sets the filter-applied flag to false; right afterwards
  \<^verbatim>\<open>get_current_data()\<close> is the recording just assigned and \<^verbatim>\<open>filter_applied\<close>
  reads false.
\<close>

theorem set_raw_data_clears_processed:
  "processed_data (set_raw_data (PRaw r) st) = PNone
   \<and> filter_applied (set_raw_data (PRaw r) st) = PBool False
   \<and> raw_data (set_raw_data (PRaw r) st) = PRaw r
   \<and> get_current_data (set_raw_data (PRaw r) st) = PRaw r"
  by (simp add: set_raw_data_def set_filter_applied_def set_processed_data_def
      processed_data_def filter_applied_def raw_data_def get_current_data_def ss_get_def)


section \<open>Windowing: clamping an interval\<close>

text \<open>
  C2, as stated, fails: with both bounds beyond the end of a 10 second recording the
  result is the zero-width pair at the end, although 10 is not close to 0.
\<close>

theorem restrict_interval_zero_width_counterexample:
  "(15::real) \<notin> {0..10} \<and> (20::real) \<notin> {0..10}
   \<and> restrict_interval 10 15 20 = (10, 10)
   \<and> \<not> fst (restrict_interval 10 15 20) < snd (restrict_interval 10 15 20)"
  by (simp add: restrict_interval_def Let_def)

text \<open>
  C2, amended. For a duration \<open>total' \<ge> 0\<close> and all bounds, the result lies in
  \<open>[0, total']\<close> with start \<open>\<le>\<close> end; the end is strictly after the start exactly when
  \<open>total' > 0\<close> and the requested start is before \<open>total'\<close> (otherwise the pair is
  \<open>(total', total')\<close>);
  and when the clamped end is not after the clamped start, the width of the window is
  the smaller of 0.25 and the remaining duration.
\<close>

theorem restrict_interval_clamps:
  assumes "0 \<le> total'"
  shows "0 \<le> fst (restrict_interval total' start end')
    \<and> fst (restrict_interval total' start end') \<le> snd (restrict_interval total' start end')
    \<and> snd (restrict_interval total' start end') \<le> total'
    \<and> (fst (restrict_interval total' start end') < snd (restrict_interval total' start end')
         \<longleftrightarrow> start < total' \<and> 0 < total')
    \<and> (total' \<le> start \<longrightarrow> restrict_interval total' start end' = (total', total'))
    \<and> (max 0 (min end' total') \<le> max 0 (min start total') \<longrightarrow>
          snd (restrict_interval total' start end') - fst (restrict_interval total' start end')
            = min (1/4) (total' - fst (restrict_interval total' start end')))"
  using assms unfolding restrict_interval_def Let_def
  by (auto simp: min_def max_def)

theorem restrict_interval_clamps_witness:
  "(0::real) \<le> 10
   \<and> restrict_interval 10 2 1 = (2, 9/4)
   \<and> fst (restrict_interval 10 2 1) < snd (restrict_interval 10 2 1)
   \<and> snd (restrict_interval 10 2 1) \<le> 10
   \<and> snd (restrict_interval 10 2 1) - fst (restrict_interval 10 2 1) = 1/4"
  using restrict_interval_clamps [of 10 2 1]
  by (simp add: restrict_interval_def Let_def)


section \<open>Windowing: the sliding windows\<close>









section \<open>Frame sequences: failure and fall-back\<close>







section \<open>Band power: the FFT window\<close>

lemma code_window_eq_spec:
  "max (min 512 n) 64 = spec_fft_window n"
  "max 0 (spec_fft_window n div 2) = spec_overlap n"
  by (simp_all add: spec_fft_window_def spec_overlap_def max_def min_def)

text \<open>
  C8, as stated, fails for short segments: for a segment of 50 samples the window is
  64 samples, which is not smaller than the segment and not a window the estimator
  accepts; with a library that follows the contract both estimators raise.
\<close>

theorem short_segment_window_counterexample:
  "spec_fft_window 50 = 64
   \<and> \<not> welch_accepts 50 (spec_fft_window 50) (spec_overlap 50)
   \<and> bandpower_segment welch_lib 50 8 13 = None
   \<and> bandpower_mean welch_lib 50 8 13 = None"
  by (simp add: spec_fft_window_def spec_overlap_def welch_accepts_def welch_lib_def
      bandpower_segment_def bandpower_mean_def Let_def)

text \<open>
  C8, amended. Both band-power estimators call the spectral estimator with the FFT
  window \<open>max(64, min(512, n))\<close> for a segment of \<open>n\<close> samples and with the overlap
  \<open>window div 2\<close>. The window lies between 64 and 512 and the overlap is below it; for
  a segment of at least 64 samples the window does not exceed the segment, so the
  estimator accepts it; for a segment of fewer than 64 samples the window is 64 and
  exceeds the segment.
\<close>

theorem bandpower_fft_window:
  "bandpower_segment L seg fmin fmax =
     (case compute_psd L seg fmin fmax (spec_fft_window (n_times L seg))
             (spec_overlap (n_times L seg)) of
        None \<Rightarrow> None | Some psd \<Rightarrow> Some (map row_mean psd))
   \<and> bandpower_mean L seg fmin fmax =
     (case compute_psd L seg fmin fmax (spec_fft_window (n_times L seg))
             (spec_overlap (n_times L seg)) of
        None \<Rightarrow> None | Some psd \<Rightarrow> Some (map row_mean psd))
   \<and> 64 \<le> spec_fft_window n \<and> spec_fft_window n \<le> 512
   \<and> 0 \<le> spec_overlap n \<and> spec_overlap n < spec_fft_window n
   \<and> (64 \<le> n \<longrightarrow> welch_accepts n (spec_fft_window n) (spec_overlap n))
   \<and> (n < 64 \<longrightarrow> spec_fft_window n = 64 \<and> n < spec_fft_window n)"
proof -
  have a: "bandpower_segment L seg fmin fmax =
     (case compute_psd L seg fmin fmax (spec_fft_window (n_times L seg))
             (spec_overlap (n_times L seg)) of
        None \<Rightarrow> None | Some psd \<Rightarrow> Some (map row_mean psd))"
    unfolding bandpower_segment_def Let_def code_window_eq_spec ..
  have b: "bandpower_mean L seg fmin fmax =
     (case compute_psd L seg fmin fmax (spec_fft_window (n_times L seg))
             (spec_overlap (n_times L seg)) of
        None \<Rightarrow> None | Some psd \<Rightarrow> Some (map row_mean psd))"
    unfolding bandpower_mean_def Let_def code_window_eq_spec ..
  have c: "64 \<le> spec_fft_window n \<and> spec_fft_window n \<le> 512
   \<and> 0 \<le> spec_overlap n \<and> spec_overlap n < spec_fft_window n
   \<and> (64 \<le> n \<longrightarrow> welch_accepts n (spec_fft_window n) (spec_overlap n))
   \<and> (n < 64 \<longrightarrow> spec_fft_window n = 64 \<and> n < spec_fft_window n)"
    by (auto simp: spec_fft_window_def spec_overlap_def welch_accepts_def max_def min_def)
  from a b c show ?thesis by blast
qed

theorem bandpower_fft_window_witness:
  "(64::int) \<le> 100 \<and> spec_fft_window 100 = 100 \<and> spec_overlap 100 = 50
   \<and> welch_accepts 100 100 50
   \<and> bandpower_segment welch_lib 100 8 13 = Some [Finite 1]"
  using bandpower_fft_window[of welch_lib 100 8 13 100]
  by (simp add: spec_fft_window_def spec_overlap_def welch_lib_def row_mean_def)

section \<open>Marker import: dropped and clipped rows\<close>

lemma csv_loop_drops:
  "csv_loop T (filter (\<lambda>(o', d, lab). \<not> (d \<le> 0 \<or> o' \<ge> T)) rs) = csv_loop T rs"
proof (induction rs)
  case Nil
  show ?case by simp
next
  case (Cons r rs)
  obtain o' d lab where r: "r = (o', d, lab)" by (cases r)
  show ?case
  proof (cases "d \<le> 0 \<or> o' \<ge> T")
    case True
    then show ?thesis using Cons.IH by (auto simp: r)
  next
    case False
    then show ?thesis using Cons.IH by (simp add: r Let_def)
  qed
qed

lemma csv_loop_kept:
  "(on, du, lab) \<in> set (csv_loop T rs) \<Longrightarrow>
     \<exists>o' d. (o', d, lab) \<in> set rs \<and> 0 < d \<and> o' < T
            \<and> on = max 0 o' \<and> on + du = min T (o' + d) \<and> 0 < du"
proof (induction rs)
  case Nil
  then show ?case by simp
next
  case (Cons r rs)
  obtain o' d lab' where r: "r = (o', d, lab')" by (cases r)
  have step: "(on, du, lab) \<in> set (csv_loop T rs) \<Longrightarrow> ?case"
  proof -
    assume "(on, du, lab) \<in> set (csv_loop T rs)"
    from Cons.IH[OF this] obtain o2 d2 where
      "(o2, d2, lab) \<in> set rs \<and> 0 < d2 \<and> o2 < T
            \<and> on = max 0 o2 \<and> on + du = min T (o2 + d2) \<and> 0 < du" by blast
    then have "(o2, d2, lab) \<in> set (r # rs) \<and> 0 < d2 \<and> o2 < T
            \<and> on = max 0 o2 \<and> on + du = min T (o2 + d2) \<and> 0 < du" by simp
    then show ?case by blast
  qed
  show ?case
  proof (cases "d \<le> 0 \<or> o' \<ge> T")
    case True
    with Cons.prems have "(on, du, lab) \<in> set (csv_loop T rs)" by (simp add: r)
    then show ?thesis by (rule step)
  next
    case False
    show ?thesis
    proof (cases "min T (o' + d) - max 0 o' \<le> 0")
      case True
      with False Cons.prems have "(on, du, lab) \<in> set (csv_loop T rs)" by (simp add: r Let_def)
      then show ?thesis by (rule step)
    next
      case keep: False
      with False Cons.prems
      have "(on, du, lab) = (max 0 o', min T (o' + d) - max 0 o', lab')
            \<or> (on, du, lab) \<in> set (csv_loop T rs)"
        by (simp add: r Let_def)
      then show ?thesis
      proof
        assume eq: "(on, du, lab) = (max 0 o', min T (o' + d) - max 0 o', lab')"
        then have "on = max 0 o'" "du = min T (o' + d) - max 0 o'" "lab = lab'" by simp_all
        with False keep have "(o', d, lab) \<in> set (r # rs) \<and> 0 < d \<and> o' < T
            \<and> on = max 0 o' \<and> on + du = min T (o' + d) \<and> 0 < du"
          by (auto simp: r min_def max_def split: if_splits)
        then show ?thesis by blast
      next
        assume "(on, du, lab) \<in> set (csv_loop T rs)"
        then show ?thesis by (rule step)
      qed
    qed
  qed
qed

text \<open>
  C9. Rows with duration \<open>\<le> 0\<close> or onset at or beyond the recording length contribute
  nothing to the import; every imported marker comes from a row with positive duration
  and onset before the recording length, starts at that onset (not before 0) and ends
  at the row's end clipped to the recording length; the function reports the number of
  markers kept; and when no row survives, as for the row (100, 2, Blink) against a
  recording of 5 seconds, it reports 0 and leaves the recording unchanged.
\<close>

theorem add_csv_markers_drops_and_clips:
  "csv_loop T rs = csv_loop T (filter (\<lambda>(o', d, lab). \<not> (d \<le> 0 \<or> o' \<ge> T)) rs)
   \<and> (\<forall>(on, du, lab) \<in> set (csv_loop T rs).
         \<exists>o' d. (o', d, lab) \<in> set rs \<and> 0 < d \<and> o' < T
                \<and> on = max 0 o' \<and> on + du = min T (o' + d) \<and> on + du \<le> T)
   \<and> snd (add_csv_markers ann_add raw df) =
        (if set [''latency'', ''duration'', ''type''] \<subseteq> set (columns df)
         then int (length (csv_loop (last_time raw) (rows df))) else 0)
   \<and> (csv_loop (last_time raw) (rows df) = [] \<longrightarrow> add_csv_markers ann_add raw df = (raw, 0))
   \<and> ((\<forall>(o', d, lab) \<in> set (rows df). d \<le> 0 \<or> o' \<ge> last_time raw) \<longrightarrow>
         add_csv_markers ann_add raw df = (raw, 0))
   \<and> add_csv_markers ann_add \<lparr>last_time = 5, annotations = anns\<rparr>
         \<lparr>columns = [''latency'', ''duration'', ''type''], rows = [(100, 2, ''Blink'')]\<rparr>
       = (\<lparr>last_time = 5, annotations = anns\<rparr>, 0)"
proof -
  have a: "csv_loop T rs = csv_loop T (filter (\<lambda>(o', d, lab). \<not> (d \<le> 0 \<or> o' \<ge> T)) rs)"
    by (rule csv_loop_drops[symmetric])
  have b: "\<forall>(on, du, lab) \<in> set (csv_loop T rs).
         \<exists>o' d. (o', d, lab) \<in> set rs \<and> 0 < d \<and> o' < T
                \<and> on = max 0 o' \<and> on + du = min T (o' + d) \<and> on + du \<le> T"
  proof (clarify)
    fix on du lab
    assume "(on, du, lab) \<in> set (csv_loop T rs)"
    from csv_loop_kept[OF this] obtain o' d where
      h: "(o', d, lab) \<in> set rs" "0 < d" "o' < T" "on = max 0 o'" "on + du = min T (o' + d)"
      by blast
    then have "on + du \<le> T" by simp
    with h show "\<exists>o' d. (o', d, lab) \<in> set rs \<and> 0 < d \<and> o' < T
                \<and> on = max 0 o' \<and> on + du = min T (o' + d) \<and> on + du \<le> T"
      by blast
  qed
  have c: "snd (add_csv_markers ann_add raw df) =
        (if set [''latency'', ''duration'', ''type''] \<subseteq> set (columns df)
         then int (length (csv_loop (last_time raw) (rows df))) else 0)"
    by (simp add: add_csv_markers_def Let_def)
  have d: "csv_loop (last_time raw) (rows df) = [] \<longrightarrow> add_csv_markers ann_add raw df = (raw, 0)"
    by (simp add: add_csv_markers_def Let_def)
  have e: "(\<forall>(o', d, lab) \<in> set (rows df). d \<le> 0 \<or> o' \<ge> last_time raw) \<longrightarrow>
         add_csv_markers ann_add raw df = (raw, 0)"
  proof
    assume all: "\<forall>(o', d, lab) \<in> set (rows df). d \<le> 0 \<or> o' \<ge> last_time raw"
    then have "filter (\<lambda>(o', d, lab). \<not> (d \<le> 0 \<or> o' \<ge> last_time raw)) (rows df) = []"
      by (auto simp: filter_empty_conv)
    then have "csv_loop (last_time raw) (rows df) = []"
      using csv_loop_drops[of "last_time raw" "rows df"] by simp
    with d show "add_csv_markers ann_add raw df = (raw, 0)" by simp
  qed
  have f: "add_csv_markers ann_add \<lparr>last_time = 5, annotations = anns\<rparr>
         \<lparr>columns = [''latency'', ''duration'', ''type''], rows = [(100, 2, ''Blink'')]\<rparr>
       = (\<lparr>last_time = 5, annotations = anns\<rparr>, 0)"
    by (simp add: add_csv_markers_def)
  show ?thesis
    by (rule conjI[OF a conjI[OF b conjI[OF c conjI[OF d conjI[OF e f]]]]])
qed

theorem add_csv_markers_drops_and_clips_witness:
  "csv_loop 5 [(100, 2, ''Blink''), (4, 3, ''Eye''), (1, 0, ''Zero'')] = [(4, 1, ''Eye'')]
   \<and> add_csv_markers (\<lambda>old new. old @ new) \<lparr>last_time = 5, annotations = []\<rparr>
        \<lparr>columns = [''latency'', ''duration'', ''type''],
         rows = [(100, 2, ''Blink''), (4, 3, ''Eye''), (1, 0, ''Zero'')]\<rparr>
      = (\<lparr>last_time = 5, annotations = [(4, 1, ''Eye'')]\<rparr>, 1)
   \<and> add_csv_markers (\<lambda>old new. old @ new) \<lparr>last_time = 5, annotations = []\<rparr>
        \<lparr>columns = [''latency'', ''duration'', ''type''], rows = [(100, 2, ''Blink'')]\<rparr>
      = (\<lparr>last_time = 5, annotations = []\<rparr>, 0)"
  using add_csv_markers_drops_and_clips
    [of 5 "[(100, 2, ''Blink''), (4, 3, ''Eye''), (1, 0, ''Zero'')]" "\<lambda>old new. old @ new"
        "\<lparr>last_time = 5, annotations = []\<rparr>"
        "\<lparr>columns = [''latency'', ''duration'', ''type''], rows = [(100, 2, ''Blink'')]\<rparr>" "[]"]
  by (simp add: add_csv_markers_def Let_def)


section \<open>Contrast: antisymmetry\<close>









section \<open>Epochs: no annotations, no matching labels\<close>

text \<open>
  C5. When the recording has annotations, they yield at least one event and none of
  the requested labels is among the labels present, \<^verbatim>\<open>create_epochs_from_labels\<close>
  returns no epochs, no label-code map and the message that no matching labels were
  found, followed by the available labels, and leaves the manager as it was; with no
  annotations it returns the message that no annotations are present; and whenever it
  returns an epoch set, the set is not empty, the label-code map is present and not
  empty, and there is no message.
\<close>

theorem create_epochs_no_matching_labels:
  "(0 < n_annotations L raw \<and> events_from_annotations L raw = Inr (events, mapping)
      \<and> events \<noteq> [] \<and> set labels_to_use \<inter> fst ` set mapping = {} \<longrightarrow>
    create_epochs_from_labels L repr self raw labels_to_use args =
      (self, (None, None,
         Some (''No matching labels found. Available: '' @ repr (map fst mapping)))))
   \<and> (n_annotations L raw = 0 \<longrightarrow>
        create_epochs_from_labels L repr self raw labels_to_use args =
          (self, (None, None, Some ''No annotations present in the data'')))
   \<and> (\<forall>ep. fst (snd (create_epochs_from_labels L repr self raw labels_to_use args)) = Some ep \<longrightarrow>
          len_epochs L ep \<noteq> 0
          \<and> (\<exists>eid. fst (snd (snd (create_epochs_from_labels L repr self raw labels_to_use args)))
                      = Some eid \<and> eid \<noteq> [])
          \<and> snd (snd (snd (create_epochs_from_labels L repr self raw labels_to_use args))) = None)"
proof -
  have a: "0 < n_annotations L raw \<and> events_from_annotations L raw = Inr (events, mapping)
      \<and> events \<noteq> [] \<and> set labels_to_use \<inter> fst ` set mapping = {} \<longrightarrow>
    create_epochs_from_labels L repr self raw labels_to_use args =
      (self, (None, None,
         Some (''No matching labels found. Available: '' @ repr (map fst mapping))))"
  proof
    assume h: "0 < n_annotations L raw \<and> events_from_annotations L raw = Inr (events, mapping)
      \<and> events \<noteq> [] \<and> set labels_to_use \<inter> fst ` set mapping = {}"
    then have "\<forall>x \<in> set mapping. fst x \<notin> set labels_to_use" by auto
    then have "filter (\<lambda>(label, code). label \<in> set labels_to_use) mapping = []"
      by (auto simp: filter_empty_conv)
    with h show "create_epochs_from_labels L repr self raw labels_to_use args =
      (self, (None, None,
         Some (''No matching labels found. Available: '' @ repr (map fst mapping))))"
      by (simp add: create_epochs_from_labels_def)
  qed
  have b: "n_annotations L raw = 0 \<longrightarrow>
        create_epochs_from_labels L repr self raw labels_to_use args =
          (self, (None, None, Some ''No annotations present in the data''))"
    by (simp add: create_epochs_from_labels_def)
  have c: "\<forall>ep. fst (snd (create_epochs_from_labels L repr self raw labels_to_use args)) = Some ep \<longrightarrow>
          len_epochs L ep \<noteq> 0
          \<and> (\<exists>eid. fst (snd (snd (create_epochs_from_labels L repr self raw labels_to_use args)))
                      = Some eid \<and> eid \<noteq> [])
          \<and> snd (snd (snd (create_epochs_from_labels L repr self raw labels_to_use args))) = None"
    unfolding create_epochs_from_labels_def
    by (simp add: Let_def split: sum.split prod.split)
  show ?thesis by (rule conjI[OF a conjI[OF b c]])
qed

theorem create_epochs_no_matching_labels_witness:
  "create_epochs_from_labels demo_epochs_lib (\<lambda>ls. concat ls)
       \<lparr>last_epochs = None, last_event_id = None\<rparr> [''Blink'', ''Rest''] [''Stim'']
       \<lparr>tmin = 0, tmax = 1, picks = [], baseline = None, decim = 1,
        reject_by_annotation = True, detrend = Some 1\<rparr>
     = (\<lparr>last_epochs = None, last_event_id = None\<rparr>,
        (None, None, Some ''No matching labels found. Available: BlinkRest''))
   \<and> create_epochs_from_labels demo_epochs_lib (\<lambda>ls. concat ls)
       \<lparr>last_epochs = None, last_event_id = None\<rparr> [] [''Stim'']
       \<lparr>tmin = 0, tmax = 1, picks = [], baseline = None, decim = 1,
        reject_by_annotation = True, detrend = Some 1\<rparr>
     = (\<lparr>last_epochs = None, last_event_id = None\<rparr>,
        (None, None, Some ''No annotations present in the data''))"
  using create_epochs_no_matching_labels
    [of demo_epochs_lib "[''Blink'', ''Rest'']" "[(0, 0, 1), (0, 0, 1)]"
        "[(''Blink'', 1), (''Rest'', 2)]" "[''Stim'']" "\<lambda>ls. concat ls"
        "\<lparr>last_epochs = None, last_event_id = None\<rparr>"
        "\<lparr>tmin = 0, tmax = 1, picks = [], baseline = None, decim = 1,
         reject_by_annotation = True, detrend = Some 1\<rparr>"]
    create_epochs_no_matching_labels
    [of demo_epochs_lib "[]" _ _ "[''Stim'']" "\<lambda>ls. concat ls"
        "\<lparr>last_epochs = None, last_event_id = None\<rparr>"
        "\<lparr>tmin = 0, tmax = 1, picks = [], baseline = None, decim = 1,
         reject_by_annotation = True, detrend = Some 1\<rparr>"]
  by (simp add: demo_epochs_lib_def upt_rec)


section \<open>Filter pipeline: the copy and the calls\<close>

lemma call_method_Inl:
  "call_method M p c w = Inl w' \<Longrightarrow> heap w' = heap w \<and> calls w' = calls w @ [(p, c)]"
  by (auto simp: call_method_def Let_def split: option.splits)

lemma call_method_Inr:
  "call_method M p c w = Inr w' \<Longrightarrow>
     \<exists>d. heap w' = (heap w)[p := effect c d (heap w ! p)] \<and> calls w' = calls w @ [(p, c)]"
  by (auto simp: call_method_def Let_def split: option.splits)

lemma and_then_cases:
  assumes "case r of Inl w \<Rightarrow> Q w | Inr w \<Rightarrow> I w"
    and "\<And>w. I w \<Longrightarrow> (case f w of Inl w' \<Rightarrow> Q w' | Inr x \<Rightarrow> R x)"
  shows "case and_then r f of Inl w \<Rightarrow> Q w | Inr x \<Rightarrow> R x"
  using assms by (cases r) (simp_all add: and_then_def)

lemma sfreq_effect:
  "sfreq (effect c d rec) = (case c of Resample r \<Rightarrow> r | _ \<Rightarrow> sfreq rec)"
  by (cases c) simp_all

text \<open>A step that calls a method on the copy, or does nothing, keeps the older objects.\<close>

lemma step_keeps_old:
  fixes w :: "'d world"
  assumes "take n (heap w) = H \<and> length (heap w) = Suc n"
  shows "case (if b then call_method M n c w else Inr w) of
           Inl w' \<Rightarrow> take n (heap w') = H
         | Inr w' \<Rightarrow> take n (heap w') = H \<and> length (heap w') = Suc n"
proof (cases b)
  case False
  with assms show ?thesis by simp
next
  case True
  show ?thesis
  proof (cases "call_method M n c w")
    case (Inl w')
    from call_method_Inl[OF this] assms True Inl show ?thesis by simp
  next
    case (Inr w')
    from call_method_Inr[OF this] obtain d where
      "heap w' = (heap w)[n := effect c d (heap w ! n)]" by blast
    with assms True Inr show ?thesis by simp
  qed
qed

lemma apply_pipeline_keeps_old:
  fixes w :: "'d world"
  shows "case apply_pipeline M w raw notch l_freq h_freq resample ref_avg interpolate of
     Inl w' \<Rightarrow> take (length (heap w)) (heap w') = heap w
   | Inr (w', p) \<Rightarrow> take (length (heap w)) (heap w') = heap w
                   \<and> length (heap w') = Suc (length (heap w)) \<and> p = length (heap w)"
proof -
  let ?n = "length (heap w)"
  let ?I = "\<lambda>w' :: 'd world. take ?n (heap w') = heap w \<and> length (heap w') = Suc ?n"
  let ?Q = "\<lambda>w' :: 'd world. take ?n (heap w') = heap w"
  let ?w0 = "w\<lparr>heap := heap w @ [heap w ! raw]\<rparr>"
  have I0: "?I ?w0" by simp
  have s1: "case (case resample of
           None \<Rightarrow> Inr ?w0
         | Some r \<Rightarrow>
             if r \<noteq> 0 \<and> \<bar>sfreq (heap ?w0 ! ?n) - r\<bar> > 1 / 10 ^ 6
             then call_method M ?n (Resample r) ?w0 else Inr ?w0) of Inl w' \<Rightarrow> ?Q w' | Inr w' \<Rightarrow> ?I w'"
  proof (cases resample)
    case None
    then show ?thesis using I0 by simp
  next
    case (Some r)
    then show ?thesis using step_keeps_old[of ?n ?w0 "heap w", OF I0] by simp
  qed
  have s2: "\<And>w1. ?I w1 \<Longrightarrow> case (case notch of
             None \<Rightarrow> Inr w1
           | Some f \<Rightarrow> call_method M ?n (NotchFilter f) w1) of Inl w' \<Rightarrow> ?Q w' | Inr w' \<Rightarrow> ?I w'"
  proof -
    fix w1 assume i: "?I w1"
    show "case (case notch of
             None \<Rightarrow> Inr w1
           | Some f \<Rightarrow> call_method M ?n (NotchFilter f) w1) of Inl w' \<Rightarrow> ?Q w' | Inr w' \<Rightarrow> ?I w'"
    proof (cases notch)
      case None
      then show ?thesis using i by simp
    next
      case (Some f)
      then show ?thesis using step_keeps_old[of ?n w1 "heap w" True, OF i] by simp
    qed
  qed
  have s3: "\<And>w2. ?I w2 \<Longrightarrow> case (if l_freq \<noteq> None \<or> h_freq \<noteq> None
           then (let hf = min (py_or h_freq (sfreq (heap w2 ! ?n) / 2 - 1.0))
                              (sfreq (heap w2 ! ?n) / 2 - 1.0)
                 in call_method M ?n (BandFilter l_freq hf) w2)
           else Inr w2) of Inl w' \<Rightarrow> ?Q w' | Inr w' \<Rightarrow> ?I w'"
    unfolding Let_def by (rule step_keeps_old)
  have s4: "\<And>w3. ?I w3 \<Longrightarrow> case (if interpolate \<and> bads (heap w3 ! ?n) \<noteq> []
           then call_method M ?n InterpolateBads w3 else Inr w3) of
             Inl w' \<Rightarrow> ?Q w' | Inr w' \<Rightarrow> ?I w'"
    by (rule step_keeps_old)
  have s5: "\<And>w4. ?I w4 \<Longrightarrow> case (if ref_avg then call_method M ?n SetEegReference w4 else Inr w4) of
             Inl w' \<Rightarrow> ?Q w' | Inr w' \<Rightarrow> ?I w'"
    by (rule step_keeps_old)
  let ?R = "\<lambda>x :: 'd world \<times> addr. case x of (w', p) \<Rightarrow> take ?n (heap w') = heap w
                   \<and> length (heap w') = Suc ?n \<and> p = ?n"
  have s6: "\<And>w5. ?I w5 \<Longrightarrow> case (Inr (w5, ?n) :: 'd world + ('d world \<times> addr)) of
             Inl w' \<Rightarrow> ?Q w' | Inr x \<Rightarrow> ?R x"
    by simp
  have "case apply_pipeline M w raw notch l_freq h_freq resample ref_avg interpolate of
     Inl w' \<Rightarrow> ?Q w' | Inr x \<Rightarrow> ?R x"
    unfolding apply_pipeline_def copy_def prod.case
    by (rule and_then_cases[where I = ?I, OF s1]
          and_then_cases[where I = ?I, OF s2]
          and_then_cases[where I = ?I, OF s3]
          and_then_cases[where I = ?I, OF s4]
          and_then_cases[where I = ?I, OF s5] s6 | assumption)+
  then show ?thesis by (simp split: sum.splits prod.splits)
qed

text \<open>
  C7. \<^verbatim>\<open>apply_pipeline\<close> changes no object that existed before the call, the input
  recording among them, whether it returns or a library method raises; the object it
  returns is at a fresh address, different from the input's; and with every step absent
  or disabled it returns, and the returned copy equals the input recording.
\<close>

theorem apply_pipeline_fresh_copy:
  fixes w :: "'d world"
  assumes "raw < length (heap w)"
  shows "take (length (heap w))
           (heap (final_world
              (apply_pipeline M w raw notch l_freq h_freq resample ref_avg interpolate))) = heap w
    \<and> heap (final_world
              (apply_pipeline M w raw notch l_freq h_freq resample ref_avg interpolate)) ! raw
        = heap w ! raw
    \<and> (\<forall>w' p. apply_pipeline M w raw notch l_freq h_freq resample ref_avg interpolate = Inr (w', p)
          \<longrightarrow> p = length (heap w) \<and> p \<noteq> raw \<and> p < length (heap w'))
    \<and> (notch = None \<and> l_freq = None \<and> h_freq = None \<and> resample = None
         \<and> \<not> ref_avg \<and> \<not> interpolate \<longrightarrow>
        apply_pipeline M w raw notch l_freq h_freq resample ref_avg interpolate
          = Inr (w\<lparr>heap := heap w @ [heap w ! raw]\<rparr>, length (heap w))
        \<and> heap (final_world
              (apply_pipeline M w raw notch l_freq h_freq resample ref_avg interpolate))
             ! length (heap w) = heap w ! raw)"
proof -
  let ?res = "apply_pipeline M w raw notch l_freq h_freq resample ref_avg interpolate"
  note k = apply_pipeline_keeps_old[where M = M and w = w and raw = raw and notch = notch
      and l_freq = l_freq and h_freq = h_freq and resample = resample and ref_avg = ref_avg
      and interpolate = interpolate]
  have a: "take (length (heap w)) (heap (final_world ?res)) = heap w"
    using k by (cases ?res) (auto simp: final_world_def)
  have "heap (final_world ?res) ! raw = take (length (heap w)) (heap (final_world ?res)) ! raw"
    using assms by simp
  then have b: "heap (final_world ?res) ! raw = heap w ! raw"
    by (simp only: a)
  have c: "\<forall>w' p. ?res = Inr (w', p) \<longrightarrow> p = length (heap w) \<and> p \<noteq> raw \<and> p < length (heap w')"
    using k assms by auto
  have d: "notch = None \<and> l_freq = None \<and> h_freq = None \<and> resample = None
         \<and> \<not> ref_avg \<and> \<not> interpolate \<longrightarrow>
        ?res = Inr (w\<lparr>heap := heap w @ [heap w ! raw]\<rparr>, length (heap w))
        \<and> heap (final_world ?res) ! length (heap w) = heap w ! raw"
    by (simp add: apply_pipeline_def copy_def and_then_def final_world_def)
  show ?thesis by (rule conjI[OF a conjI[OF b conjI[OF c d]]])
qed

theorem apply_pipeline_fresh_copy_witness:
  "(0::nat) < length (heap raw256)
   \<and> apply_pipeline unit_mne raw256 0 (Some 50) (Some 1) (Some 200) (Some 128) True True
       = Inr (\<lparr>heap = [\<lparr>sfreq = 256, bads = [], samples = ()\<rparr>,
                       \<lparr>sfreq = 128, bads = [], samples = ()\<rparr>],
               calls = [(1, Resample 128), (1, NotchFilter 50), (1, BandFilter (Some 1) 63),
                        (1, SetEegReference)]\<rparr>, 1)
   \<and> apply_pipeline unit_mne raw256 0 None None None None False False
       = Inr (\<lparr>heap = [\<lparr>sfreq = 256, bads = [], samples = ()\<rparr>,
                       \<lparr>sfreq = 256, bads = [], samples = ()\<rparr>], calls = []\<rparr>, 1)"
  using apply_pipeline_fresh_copy[where raw = 0 and w = raw256 and M = unit_mne
      and notch = "Some 50" and l_freq = "Some 1" and h_freq = "Some 200"
      and resample = "Some 128" and ref_avg = True and interpolate = True]
    apply_pipeline_fresh_copy[where raw = 0 and w = raw256 and M = unit_mne
      and notch = None and l_freq = None and h_freq = None
      and resample = None and ref_avg = False and interpolate = False]
  by (simp add: apply_pipeline_def copy_def and_then_def call_method_def unit_mne_def
      raw256_def py_or_def Let_def)


section \<open>Filter pipeline: the band filter's high cutoff\<close>

lemma band_cutoffs_append:
  "band_cutoffs (xs @ ys) = band_cutoffs xs @ band_cutoffs ys"
  by (induction xs rule: band_cutoffs.induct) simp_all

lemma band_cutoffs_single:
  "set (band_cutoffs [(p, c)]) = (case c of BandFilter l hf \<Rightarrow> {hf} | _ \<Rightarrow> {})"
  by (cases c) simp_all

text \<open>
  A step keeps the property that every band-filter call logged since position \<open>k\<close>
  has the cutoff \<open>x\<close>, provided its own call, if a band filter, has that cutoff.
\<close>

lemma step_keeps_cutoffs:
  fixes w :: "'d world"
  assumes "k \<le> length (calls w) \<and> (\<forall>hf \<in> set (band_cutoffs (drop k (calls w))). hf = x)"
    and "\<And>l hf. c = BandFilter l hf \<Longrightarrow> hf = x"
    and "call_method M n c w = r"
  shows "case r of
           Inl w' \<Rightarrow> k \<le> length (calls w')
                     \<and> (\<forall>hf \<in> set (band_cutoffs (drop k (calls w'))). hf = x)
         | Inr w' \<Rightarrow> k \<le> length (calls w')
                     \<and> (\<forall>hf \<in> set (band_cutoffs (drop k (calls w'))). hf = x)
                     \<and> length (heap w') = length (heap w)
                     \<and> (n < length (heap w) \<longrightarrow>
                          sfreq (heap w' ! n)
                            = (case c of Resample r \<Rightarrow> r | _ \<Rightarrow> sfreq (heap w ! n)))"
proof -
  have new: "\<forall>hf \<in> set (band_cutoffs [(n, c)]). hf = x"
    using assms(2) by (cases c) simp_all
  have app: "\<And>cs. cs = calls w @ [(n, c)] \<Longrightarrow>
     k \<le> length cs \<and> (\<forall>hf \<in> set (band_cutoffs (drop k cs)). hf = x)"
    using assms(1) new by (auto simp: band_cutoffs_append)
  show ?thesis
  proof (cases r)
    case (Inl w')
    with assms(3) have "call_method M n c w = Inl w'" by simp
    from call_method_Inl[OF this] have "calls w' = calls w @ [(n, c)]" by simp
    from app[OF this] Inl show ?thesis by simp
  next
    case (Inr w')
    with assms(3) have "call_method M n c w = Inr w'" by simp
    from call_method_Inr[OF this] obtain d where
      h: "heap w' = (heap w)[n := effect c d (heap w ! n)]" "calls w' = calls w @ [(n, c)]"
      by blast
    have "n < length (heap w) \<longrightarrow>
            sfreq (heap w' ! n) = (case c of Resample r \<Rightarrow> r | _ \<Rightarrow> sfreq (heap w ! n))"
      using h(1) by (simp add: sfreq_effect)
    with app[OF h(2)] h(1) Inr show ?thesis by simp
  qed
qed

lemma step_cutoffs_if:
  fixes w :: "'d world"
  assumes "k \<le> length (calls w) \<and> (\<forall>hf \<in> set (band_cutoffs (drop k (calls w))). hf = x)"
    and "length (heap w) = Suc n"
    and "\<And>l hf. c = BandFilter l hf \<Longrightarrow> hf = x"
  shows "case (if b then call_method M n c w else Inr w) of
           Inl w' \<Rightarrow> k \<le> length (calls w')
                     \<and> (\<forall>hf \<in> set (band_cutoffs (drop k (calls w'))). hf = x)
         | Inr w' \<Rightarrow> (k \<le> length (calls w')
                     \<and> (\<forall>hf \<in> set (band_cutoffs (drop k (calls w'))). hf = x))
                     \<and> length (heap w') = Suc n
                     \<and> sfreq (heap w' ! n)
                          = (if b then (case c of Resample r \<Rightarrow> r | _ \<Rightarrow> sfreq (heap w ! n))
                             else sfreq (heap w ! n))"
proof (cases b)
  case False
  with assms(1,2) show ?thesis by simp
next
  case True
  have r: "case call_method M n c w of
           Inl w' \<Rightarrow> k \<le> length (calls w')
                     \<and> (\<forall>hf \<in> set (band_cutoffs (drop k (calls w'))). hf = x)
         | Inr w' \<Rightarrow> k \<le> length (calls w')
                     \<and> (\<forall>hf \<in> set (band_cutoffs (drop k (calls w'))). hf = x)
                     \<and> length (heap w') = length (heap w)
                     \<and> (n < length (heap w) \<longrightarrow>
                          sfreq (heap w' ! n)
                            = (case c of Resample r \<Rightarrow> r | _ \<Rightarrow> sfreq (heap w ! n)))"
    by (rule step_keeps_cutoffs[OF assms(1) _ refl]) (rule assms(3))
  with assms(2) True show ?thesis by (cases "call_method M n c w") simp_all
qed

lemma apply_pipeline_cutoffs:
  fixes w :: "'d world"
  shows "\<forall>hf \<in> set (band_cutoffs (drop (length (calls w))
            (calls (final_world
               (apply_pipeline M w raw notch l_freq h_freq resample ref_avg interpolate))))).
           hf = min (py_or h_freq (rate_after_resampling (sfreq (heap w ! raw)) resample / 2 - 1))
                    (rate_after_resampling (sfreq (heap w ! raw)) resample / 2 - 1)"
proof -
  define rate where "rate = rate_after_resampling (sfreq (heap w ! raw)) resample"
  define x where "x = min (py_or h_freq (rate / 2 - 1)) (rate / 2 - 1)"
  let ?n = "length (heap w)"
  let ?k = "length (calls w)"
  let ?B = "\<lambda>w' :: 'd world. ?k \<le> length (calls w')
              \<and> (\<forall>hf \<in> set (band_cutoffs (drop ?k (calls w'))). hf = x)"
  let ?P = "\<lambda>w' :: 'd world. ?B w' \<and> length (heap w') = Suc ?n \<and> sfreq (heap w' ! ?n) = rate"
  let ?L = "\<lambda>w' :: 'd world. ?B w' \<and> length (heap w') = Suc ?n"
  let ?w0 = "w\<lparr>heap := heap w @ [heap w ! raw]\<rparr>"
  have B0: "?B ?w0" by simp
  have len0: "length (heap ?w0) = Suc ?n" by simp
  have sf0: "sfreq (heap ?w0 ! ?n) = sfreq (heap w ! raw)" by simp
  have s1: "case (case resample of
           None \<Rightarrow> Inr ?w0
         | Some r \<Rightarrow>
             if r \<noteq> 0 \<and> \<bar>sfreq (heap ?w0 ! ?n) - r\<bar> > 1 / 10 ^ 6
             then call_method M ?n (Resample r) ?w0 else Inr ?w0) of
          Inl w' \<Rightarrow> ?B w' | Inr w' \<Rightarrow> ?P w'"
  proof (cases resample)
    case None
    then show ?thesis using B0 len0 sf0 by (simp add: rate_def rate_after_resampling_def)
  next
    case (Some r)
    have nb: "\<And>l hf. Resample r = BandFilter l hf \<Longrightarrow> hf = x" by simp
    from step_cutoffs_if[where w = ?w0 and c = "Resample r" and M = M
        and b = "r \<noteq> 0 \<and> \<bar>sfreq (heap ?w0 ! ?n) - r\<bar> > 1 / 10 ^ 6", OF B0 len0 nb]
    show ?thesis
      unfolding Some option.case rate_def rate_after_resampling_def sf0
      by (auto split: sum.splits if_splits)
  qed
  have s2: "\<And>w1. ?P w1 \<Longrightarrow> case (case notch of
             None \<Rightarrow> Inr w1
           | Some f \<Rightarrow> call_method M ?n (NotchFilter f) w1) of
          Inl w' \<Rightarrow> ?B w' | Inr w' \<Rightarrow> ?P w'"
  proof -
    fix w1 :: "'d world" assume p: "?P w1"
    then have b: "?B w1" and l: "length (heap w1) = Suc ?n" by simp_all
    show "case (case notch of
             None \<Rightarrow> Inr w1
           | Some f \<Rightarrow> call_method M ?n (NotchFilter f) w1) of
          Inl w' \<Rightarrow> ?B w' | Inr w' \<Rightarrow> ?P w'"
    proof (cases notch)
      case None
      then show ?thesis using p by simp
    next
      case (Some f)
      have nb: "\<And>l hf. NotchFilter f = BandFilter l hf \<Longrightarrow> hf = x" by simp
      from step_cutoffs_if[where w = w1 and c = "NotchFilter f" and M = M and b = True,
          OF b l nb] p
      show ?thesis unfolding Some option.case by (auto split: sum.splits)
    qed
  qed
  have s3: "\<And>w2. ?P w2 \<Longrightarrow> case (if l_freq \<noteq> None \<or> h_freq \<noteq> None
           then (let hf = min (py_or h_freq (sfreq (heap w2 ! ?n) / 2 - 1.0))
                              (sfreq (heap w2 ! ?n) / 2 - 1.0)
                 in call_method M ?n (BandFilter l_freq hf) w2)
           else Inr w2) of
          Inl w' \<Rightarrow> ?B w' | Inr w' \<Rightarrow> ?L w'"
  proof -
    fix w2 :: "'d world" assume p: "?P w2"
    then have b: "?B w2" and l: "length (heap w2) = Suc ?n"
      and sf: "sfreq (heap w2 ! ?n) = rate" by simp_all
    have hb: "\<And>l hf. BandFilter l_freq x = BandFilter l hf \<Longrightarrow> hf = x" by simp
    have eq: "min (py_or h_freq (sfreq (heap w2 ! ?n) / 2 - 1.0))
                  (sfreq (heap w2 ! ?n) / 2 - 1.0) = x"
      by (simp add: sf x_def)
    from step_cutoffs_if[where w = w2 and c = "BandFilter l_freq x" and M = M
        and b = "l_freq \<noteq> None \<or> h_freq \<noteq> None", OF b l hb]
    show "case (if l_freq \<noteq> None \<or> h_freq \<noteq> None
           then (let hf = min (py_or h_freq (sfreq (heap w2 ! ?n) / 2 - 1.0))
                              (sfreq (heap w2 ! ?n) / 2 - 1.0)
                 in call_method M ?n (BandFilter l_freq hf) w2)
           else Inr w2) of
          Inl w' \<Rightarrow> ?B w' | Inr w' \<Rightarrow> ?L w'"
      unfolding Let_def eq by (auto split: sum.splits)
  qed
  have s4: "\<And>w3. ?L w3 \<Longrightarrow> case (if interpolate \<and> bads (heap w3 ! ?n) \<noteq> []
           then call_method M ?n InterpolateBads w3 else Inr w3) of
             Inl w' \<Rightarrow> ?B w' | Inr w' \<Rightarrow> ?L w'"
  proof -
    fix w3 :: "'d world" assume p: "?L w3"
    then have b: "?B w3" and l: "length (heap w3) = Suc ?n" by simp_all
    have nb: "\<And>l hf. InterpolateBads = BandFilter l hf \<Longrightarrow> hf = x" by simp
    from step_cutoffs_if[where w = w3 and c = InterpolateBads and M = M
        and b = "interpolate \<and> bads (heap w3 ! ?n) \<noteq> []", OF b l nb]
    show "case (if interpolate \<and> bads (heap w3 ! ?n) \<noteq> []
           then call_method M ?n InterpolateBads w3 else Inr w3) of
             Inl w' \<Rightarrow> ?B w' | Inr w' \<Rightarrow> ?L w'"
      by (auto split: sum.splits)
  qed
  have s5: "\<And>w4. ?L w4 \<Longrightarrow> case (if ref_avg then call_method M ?n SetEegReference w4 else Inr w4) of
             Inl w' \<Rightarrow> ?B w' | Inr w' \<Rightarrow> ?L w'"
  proof -
    fix w4 :: "'d world" assume p: "?L w4"
    then have b: "?B w4" and l: "length (heap w4) = Suc ?n" by simp_all
    have nb: "\<And>l hf. SetEegReference = BandFilter l hf \<Longrightarrow> hf = x" by simp
    from step_cutoffs_if[where w = w4 and c = SetEegReference and M = M
        and b = ref_avg, OF b l nb]
    show "case (if ref_avg then call_method M ?n SetEegReference w4 else Inr w4) of
             Inl w' \<Rightarrow> ?B w' | Inr w' \<Rightarrow> ?L w'"
      by (auto split: sum.splits)
  qed
  let ?R = "\<lambda>r :: 'd world \<times> addr. ?B (fst r)"
  have s6: "\<And>w5. ?L w5 \<Longrightarrow> case (Inr (w5, ?n) :: 'd world + ('d world \<times> addr)) of
             Inl w' \<Rightarrow> ?B w' | Inr r \<Rightarrow> ?R r"
    by simp
  have "case apply_pipeline M w raw notch l_freq h_freq resample ref_avg interpolate of
     Inl w' \<Rightarrow> ?B w' | Inr r \<Rightarrow> ?R r"
    unfolding apply_pipeline_def copy_def prod.case
    by (rule and_then_cases[where I = ?P, OF s1]
          and_then_cases[where I = ?P, OF s2]
          and_then_cases[where I = ?L, OF s3]
          and_then_cases[where I = ?L, OF s4]
          and_then_cases[where I = ?L, OF s5] s6 | assumption)+
  then have "?B (final_world
      (apply_pipeline M w raw notch l_freq h_freq resample ref_avg interpolate))"
    by (cases "apply_pipeline M w raw notch l_freq h_freq resample ref_avg interpolate")
       (auto simp: final_world_def)
  then show ?thesis unfolding x_def rate_def by blast
qed

text \<open>
  C3, as stated, fails. For a recording at 256 Hz and a requested \<open>h_freq\<close> of 200 Hz,
  which is above \<open>sf/2\<close>, the cutoff passed to the band filter is 127 Hz, that is
  \<open>sf/2 - 1.0\<close> itself and so not below it; and when the recording is resampled to
  512 Hz first, the cutoff is the requested 200 Hz, above \<open>sf/2 - 1.0\<close> of the
  recording's own rate.
\<close>

theorem band_filter_cutoff_counterexample:
  "sfreq (heap raw256 ! 0) = 256 \<and> (200::real) \<ge> 256 / 2
   \<and> band_cutoffs (calls (final_world
        (apply_pipeline unit_mne raw256 0 None None (Some 200) None False False))) = [127]
   \<and> (127::real) \<ge> 256 / 2 - 1.0
   \<and> band_cutoffs (calls (final_world
        (apply_pipeline unit_mne raw256 0 None None (Some 200) (Some 512) False False))) = [200]
   \<and> (200::real) \<ge> 256 / 2 - 1.0"
  by (simp add: apply_pipeline_def copy_def and_then_def call_method_def unit_mne_def
      raw256_def py_or_def final_world_def Let_def)

text \<open>
  C3, amended. Every high cutoff that \<^verbatim>\<open>apply_pipeline\<close> passes to the band filter is at
  most \<open>rate/2 - 1.0\<close>, where \<open>rate\<close> is the sampling rate after the resampling step
  (the requested rate if the step ran, the recording's own rate otherwise); and when
  the requested \<open>h_freq\<close> is at least \<open>rate/2\<close>, the cutoff is exactly
  \<open>rate/2 - 1.0\<close>, never above it.
\<close>

theorem band_filter_cutoff_clamped:
  fixes w :: "'d world"
  shows "\<forall>hf \<in> set (band_cutoffs (drop (length (calls w))
            (calls (final_world
               (apply_pipeline M w raw notch l_freq h_freq resample ref_avg interpolate))))).
           hf \<le> rate_after_resampling (sfreq (heap w ! raw)) resample / 2 - 1
           \<and> (\<forall>h. h_freq = Some h
                    \<and> rate_after_resampling (sfreq (heap w ! raw)) resample / 2 \<le> h
                  \<longrightarrow> hf = rate_after_resampling (sfreq (heap w ! raw)) resample / 2 - 1)"
proof
  fix hf
  define x0 where "x0 = rate_after_resampling (sfreq (heap w ! raw)) resample / 2 - 1"
  assume "hf \<in> set (band_cutoffs (drop (length (calls w))
            (calls (final_world
               (apply_pipeline M w raw notch l_freq h_freq resample ref_avg interpolate)))))"
  with apply_pipeline_cutoffs[where M = M and w = w and raw = raw and notch = notch
      and l_freq = l_freq and h_freq = h_freq and resample = resample and ref_avg = ref_avg
      and interpolate = interpolate]
  have eq: "hf = min (py_or h_freq x0) x0" unfolding x0_def by blast
  then have le: "hf \<le> x0" by simp
  have ex: "\<forall>h. h_freq = Some h \<and> x0 + 1 \<le> h \<longrightarrow> hf = x0"
  proof (intro allI impI)
    fix h assume h: "h_freq = Some h \<and> x0 + 1 \<le> h"
    then have "py_or h_freq x0 = x0 \<or> py_or h_freq x0 = h" by (simp add: py_or_def)
    with h eq show "hf = x0" by auto
  qed
  have x1: "x0 + 1 = rate_after_resampling (sfreq (heap w ! raw)) resample / 2"
    by (simp add: x0_def)
  show "hf \<le> rate_after_resampling (sfreq (heap w ! raw)) resample / 2 - 1
           \<and> (\<forall>h. h_freq = Some h
                    \<and> rate_after_resampling (sfreq (heap w ! raw)) resample / 2 \<le> h
                  \<longrightarrow> hf = rate_after_resampling (sfreq (heap w ! raw)) resample / 2 - 1)"
    using le ex unfolding x1[symmetric] x0_def[symmetric] by simp
qed

theorem band_filter_cutoff_clamped_witness:
  "band_cutoffs (drop (length (calls raw256)) (calls (final_world
        (apply_pipeline unit_mne raw256 0 None (Some 1) (Some 200) (Some 128) False False))))
     = [63]
   \<and> rate_after_resampling (sfreq (heap raw256 ! 0)) (Some 128) = 128
   \<and> (63::real) \<le> 128 / 2 - 1"
  using band_filter_cutoff_clamped[where w = raw256 and M = unit_mne and raw = 0
      and notch = None and l_freq = "Some 1" and h_freq = "Some 200" and resample = "Some 128"
      and ref_avg = False and interpolate = False]
  by (simp add: apply_pipeline_def copy_def and_then_def call_method_def unit_mne_def
      raw256_def py_or_def final_world_def rate_after_resampling_def Let_def)

end
